theory Spec2Isabelle
  imports Complex_Main "HOL-Library.Monad_Syntax"
begin

section \<open>GLSL values and built-in functions\<close>

text \<open>
  The shaders of \<^verbatim>\<open>src/src/App.jsx\<close> and \<^verbatim>\<open>src/src/Ocean.jsx\<close> compute on GLSL floats and
  float vectors. A float is modelled as a real number: rounding, overflow and underflow
  are not part of the model. What GLSL leaves undefined or not finite is kept: a
  computation returns \<open>None\<close> as soon as it divides by zero, or calls \<^verbatim>\<open>pow\<close>,
  \<^verbatim>\<open>sqrt\<close> or \<^verbatim>\<open>normalize\<close> outside the domain on which GLSL defines them, and
  \<open>Some v\<close> when every operation on the way to \<open>v\<close> is defined and finite.
\<close>

datatype vec2 = Vec2 (x2: real) (y2: real)
datatype vec3 = Vec3 (x3: real) (y3: real) (z3: real)
datatype vec4 = Vec4 (x4: real) (y4: real) (z4: real) (w4: real)

definition gl_div :: "real \<Rightarrow> real \<Rightarrow> real option" where
  "gl_div a b = (if b = 0 then None else Some (a / b))"

definition gl_sqrt :: "real \<Rightarrow> real option" where
  "gl_sqrt a = (if a < 0 then None else Some (sqrt a))"

text \<open>\<^verbatim>\<open>pow(x, y)\<close>: undefined if \<open>x < 0\<close>, and if \<open>x = 0\<close> and \<open>y \<le> 0\<close>.\<close>

definition gl_pow :: "real \<Rightarrow> real \<Rightarrow> real option" where
  "gl_pow a b = (if a < 0 \<or> (a = 0 \<and> b \<le> 0) then None else Some (a powr b))"

definition dot2 :: "vec2 \<Rightarrow> vec2 \<Rightarrow> real" where
  "dot2 a b = x2 a * x2 b + y2 a * y2 b"

definition dot3 :: "vec3 \<Rightarrow> vec3 \<Rightarrow> real" where
  "dot3 a b = x3 a * x3 b + y3 a * y3 b + z3 a * z3 b"

definition length2 :: "vec2 \<Rightarrow> real" where
  "length2 v = sqrt (x2 v * x2 v + y2 v * y2 v)"

text \<open>\<^verbatim>\<open>normalize(v)\<close> is \<^verbatim>\<open>v / length(v)\<close>.\<close>

definition normalize2 :: "vec2 \<Rightarrow> vec2 option" where
  "normalize2 v = do {
     a \<leftarrow> gl_div (x2 v) (length2 v);
     b \<leftarrow> gl_div (y2 v) (length2 v);
     Some (Vec2 a b)
   }"

section \<open>The spectral pipeline (\<^verbatim>\<open>src/src/App.jsx\<close>, second module)\<close>

subsection \<open>Constants\<close>

text \<open>
  The module constants \<^verbatim>\<open>RESOLUTION\<close>, \<^verbatim>\<open>WIND_SPEED\<close>, \<^verbatim>\<open>WIND_DIRECTION\<close> and
  \<^verbatim>\<open>GRAVITY\<close>. The shader sources and the render targets are built from them
  (\<^verbatim>\<open>${RESOLUTION}\<close>, \<^verbatim>\<open>${GRAVITY}\<close>), so the model takes them as a record;
  \<open>source_config\<close> holds the values written in the file. The Phillips and the
  time-evolution shader also use the name \<^verbatim>\<open>PI\<close>, which no line of the repository
  declares. The functions that transcribe the two shaders read it from the field \<open>PI\<close>,
  for which \<open>source_config\<close> takes the number \<open>pi\<close>: what is proved of them holds for
  every value of the name. The programs built from the two sources as they are written
  do not compile; see \<open>fragment\<close> below.
\<close>

record config =
  RESOLUTION :: nat
  WIND_SPEED :: real
  WIND_DIRECTION :: vec2
  GRAVITY :: real
  PI :: real

definition source_config :: config where
  "source_config = \<lparr> RESOLUTION = 256, WIND_SPEED = 10.0,
     WIND_DIRECTION = Vec2 (1 / sqrt 2) (1 / sqrt 2), GRAVITY = 9.81, PI = pi \<rparr>"

subsection \<open>Step 1: Phillips spectrum\<close>

record phillips_uniforms =
  uWindSpeed :: real
  uWindDirection :: vec2
  uGravity :: real
  uAlpha :: real

definition phillipsSpectrumShader_uniforms :: "config \<Rightarrow> phillips_uniforms" where
  "phillipsSpectrumShader_uniforms c = \<lparr> uWindSpeed = WIND_SPEED c,
     uWindDirection = WIND_DIRECTION c, uGravity = GRAVITY c, uAlpha = 0.0081 \<rparr>"

definition phillips :: "phillips_uniforms \<Rightarrow> vec2 \<Rightarrow> real option" where
  "phillips u k =
    (let kLength = length2 k in
     if kLength < 0.0001 then Some 0.0
     else do {
       L \<leftarrow> gl_div (uWindSpeed u * uWindSpeed u) (uGravity u);
       nk \<leftarrow> normalize2 k;
       let kDotW = dot2 nk (uWindDirection u);
       p \<leftarrow> gl_pow (L / 1000.0) 2.0;
       let damping = exp (- kLength * kLength * p);
       e \<leftarrow> gl_div (- 1.0) (kLength * kLength * L * L);
       q \<leftarrow> gl_pow (kDotW * kDotW) 1.0;
       gl_div (uAlpha u * exp e * q * damping)
              (kLength * kLength * kLength * kLength)
     })"

text \<open>The wave vector of the fragment at texture coordinate \<open>vUv\<close>.\<close>

definition wave_vector :: "config \<Rightarrow> vec2 \<Rightarrow> vec2" where
  "wave_vector c vUv =
     Vec2 (2.0 * PI c * (x2 vUv - 0.5) * real (RESOLUTION c))
          (2.0 * PI c * (y2 vUv - 0.5) * real (RESOLUTION c))"

definition phillips_main :: "config \<Rightarrow> phillips_uniforms \<Rightarrow> vec2 \<Rightarrow> vec4 option" where
  "phillips_main c u vUv = do {
     let k = wave_vector c vUv;
     P \<leftarrow> phillips u k;
     Some (Vec4 P 0.0 0.0 1.0)
   }"

subsection \<open>Textures, sampling and full-screen passes\<close>

text \<open>
  A render target is a \<open>width \<times> height\<close> grid of RGBA float texels; a texel is \<open>None\<close>
  when the fragment that wrote it had no defined, finite value. All targets are created
  with \<^verbatim>\<open>NearestFilter\<close>, so \<^verbatim>\<open>texture2D\<close> returns the texel that contains the
  coordinate, clamped to the edge. A pass draws a quad that covers the whole target: the
  fragment of texel \<open>(i, j)\<close> runs at the texel's centre.
\<close>

record texture =
  width :: nat
  height :: nat
  texels :: "nat \<Rightarrow> nat \<Rightarrow> vec4 option"

definition WebGLRenderTarget :: "nat \<Rightarrow> nat \<Rightarrow> texture" where
  "WebGLRenderTarget w h = \<lparr> width = w, height = h, texels = (\<lambda>i j. Some (Vec4 0 0 0 0)) \<rparr>"

definition texel_index :: "nat \<Rightarrow> real \<Rightarrow> nat" where
  "texel_index n u = nat (min (max \<lfloor>u * real n\<rfloor> 0) (int n - 1))"

definition texture2D :: "texture \<Rightarrow> vec2 \<Rightarrow> vec4 option" where
  "texture2D t uv = texels t (texel_index (width t) (x2 uv)) (texel_index (height t) (y2 uv))"

definition texel_uv :: "nat \<Rightarrow> nat \<Rightarrow> nat \<Rightarrow> nat \<Rightarrow> vec2" where
  "texel_uv w h i j = Vec2 ((real i + 0.5) / real w) ((real j + 0.5) / real h)"

definition render_quad :: "(vec2 \<Rightarrow> vec4 option) \<Rightarrow> texture \<Rightarrow> texture" where
  "render_quad frag t =
     t\<lparr> texels := (\<lambda>i j. if i < width t \<and> j < height t
                          then frag (texel_uv (width t) (height t) i j)
                          else texels t i j) \<rparr>"

subsection \<open>Step 2: initial spectrum\<close>

definition initialSpectrum_main :: "texture \<Rightarrow> texture \<Rightarrow> vec2 \<Rightarrow> vec4 option" where
  "initialSpectrum_main uPhillips uNoise vUv = do {
     noise \<leftarrow> texture2D uNoise vUv;
     ph \<leftarrow> texture2D uPhillips vUv;
     let phillips = x4 ph;
     s \<leftarrow> gl_sqrt (phillips / 2.0);
     let h0k = Vec2 (s * x4 noise) (s * y4 noise);
     Some (Vec4 (x2 h0k) (y2 h0k) 0.0 1.0)
   }"

subsection \<open>Step 3: FFT computation shaders\<close>

text \<open>The three FFT shader objects: both sources are the empty string.\<close>

record shader_source =
  vertexShader :: string
  fragmentShader :: string

definition butterflyTextureShader :: shader_source where
  "butterflyTextureShader = \<lparr> vertexShader = '''', fragmentShader = '''' \<rparr>"

definition horizontalFFTShader :: shader_source where
  "horizontalFFTShader = \<lparr> vertexShader = '''', fragmentShader = '''' \<rparr>"

definition verticalFFTShader :: shader_source where
  "verticalFFTShader = \<lparr> vertexShader = '''', fragmentShader = '''' \<rparr>"

subsection \<open>Step 4: time evolution\<close>

definition timeEvolution_main :: "config \<Rightarrow> texture \<Rightarrow> real \<Rightarrow> vec2 \<Rightarrow> vec4 option" where
  "timeEvolution_main c uInitialSpectrum uTime vUv = do {
     h \<leftarrow> texture2D uInitialSpectrum vUv;
     let h0k = Vec2 (x4 h) (y4 h);
     let k = wave_vector c vUv;
     w \<leftarrow> gl_sqrt (GRAVITY c * length2 k);
     let ht = Vec2 (x2 h0k * cos (w * uTime)) (y2 h0k * cos (w * uTime));
     Some (Vec4 (x2 ht) (y2 ht) 0.0 1.0)
   }"

subsection \<open>Render targets, materials and the frame callback of \<^verbatim>\<open>Ocean\<close>\<close>

text \<open>
  The keys of the \<^verbatim>\<open>fbos\<close> object, and the materials the compute quad can carry:
  the three of the \<^verbatim>\<open>materials\<close> object, and the \<^verbatim>\<open>MeshBasicMaterial\<close> that
  \<^verbatim>\<open>new THREE.Mesh(geometry)\<close> gives a mesh created without one. No material is built
  from the three FFT shader objects.
\<close>

datatype fbo_name = Fbo_phillips | Fbo_initialSpectrum | Fbo_spectrum | Fbo_displacement
  | Fbo_normals | Fbo_pingPong0 | Fbo_pingPong1

datatype material = Mat_phillips | Mat_initialSpectrum | Mat_timeEvolution | MeshBasicMaterial

text \<open>A sampler uniform holds \<^verbatim>\<open>null\<close> or the texture of one of the render targets.\<close>

record initialSpectrum_uniforms =
  uPhillips :: "fbo_name option"
  uNoise :: "fbo_name option"

record timeEvolution_uniforms =
  uInitialSpectrum :: "fbo_name option"
  uTime :: real

record oceanMaterial_uniforms =
  ocean_uTime :: real
  uDisplacement :: "fbo_name option"
  uNormalMap :: "fbo_name option"

text \<open>
  The mutable state the module's callbacks work on. \<open>gl_render_calls\<close> records every
  \<^verbatim>\<open>gl.render(computeScene, computeCamera)\<close>: the material on the compute quad and the
  render target bound at the call.
\<close>

record spectral_state =
  fbos :: "fbo_name \<Rightarrow> texture"
  materials_phillips :: phillips_uniforms
  materials_initialSpectrum :: initialSpectrum_uniforms
  materials_timeEvolution :: timeEvolution_uniforms
  debugMaterial_uTexture :: "fbo_name option"
  oceanMaterial :: oceanMaterial_uniforms
  computeQuad_material :: material
  renderTarget :: "fbo_name option"
  meshRef_current :: bool
  debug_meshRef_current :: bool
  gl_render_calls :: "(material \<times> fbo_name option) list"

text \<open>
  What the component body has built once \<^verbatim>\<open>Ocean\<close> is mounted: seven render targets of
  \<^verbatim>\<open>RESOLUTION\<close> by \<^verbatim>\<open>RESOLUTION\<close> texels, the three materials with the uniforms of
  their shader objects, and the compute quad. The body has no branch and no
  \<^verbatim>\<open>throw\<close>.
\<close>

definition Ocean_mount :: "config \<Rightarrow> spectral_state" where
  "Ocean_mount c = \<lparr>
     fbos = (\<lambda>n. WebGLRenderTarget (RESOLUTION c) (RESOLUTION c)),
     materials_phillips = phillipsSpectrumShader_uniforms c,
     materials_initialSpectrum = \<lparr> uPhillips = None, uNoise = None \<rparr>,
     materials_timeEvolution = \<lparr> uInitialSpectrum = None, uTime = 0 \<rparr>,
     debugMaterial_uTexture = None,
     oceanMaterial = \<lparr> ocean_uTime = 0, uDisplacement = None, uNormalMap = None \<rparr>,
     computeQuad_material = MeshBasicMaterial,
     renderTarget = None,
     meshRef_current = True,
     debug_meshRef_current = True,
     gl_render_calls = [] \<rparr>"

text \<open>
  The texture a sampler reads. For \<^verbatim>\<open>null\<close> the renderer binds a placeholder of its
  own, taken here as one texel of zeros; no frame callback draws with a sampler that is
  \<^verbatim>\<open>null\<close>, and no property below depends on the placeholder's contents.
\<close>

definition emptyTexture :: texture where
  "emptyTexture = WebGLRenderTarget 1 1"

definition sampler :: "spectral_state \<Rightarrow> fbo_name option \<Rightarrow> texture" where
  "sampler st v = (case v of None \<Rightarrow> emptyTexture | Some n \<Rightarrow> fbos st n)"

text \<open>
  The fragment program of a material, \<open>None\<close> when its source does not compile. The
  fragment sources of \<^verbatim>\<open>phillipsSpectrumShader\<close> and \<^verbatim>\<open>timeEvolutionShader\<close> use the
  identifier \<^verbatim>\<open>PI\<close> and nothing declares it: these two materials have no program.
\<close>

definition fragment ::
  "config \<Rightarrow> spectral_state \<Rightarrow> material \<Rightarrow> (vec2 \<Rightarrow> vec4 option) option" where
  "fragment c st m =
     (case m of
        Mat_phillips \<Rightarrow> None
      | Mat_initialSpectrum \<Rightarrow>
          Some (initialSpectrum_main (sampler st (uPhillips (materials_initialSpectrum st)))
                  (sampler st (uNoise (materials_initialSpectrum st))))
      | Mat_timeEvolution \<Rightarrow> None
      | MeshBasicMaterial \<Rightarrow> Some (\<lambda>vUv. Some (Vec4 1 1 1 1)))"

text \<open>
  \<^verbatim>\<open>gl.render(computeScene, computeCamera)\<close>: the quad is drawn into the bound render
  target; with no target bound it goes to the canvas, which the state does not hold. A
  draw with a material that has no program writes nothing.
\<close>

definition gl_render :: "config \<Rightarrow> spectral_state \<Rightarrow> spectral_state" where
  "gl_render c st =
     (let st' = st\<lparr> gl_render_calls :=
                    gl_render_calls st @ [(computeQuad_material st, renderTarget st)] \<rparr>
      in case renderTarget st of
           None \<Rightarrow> st'
         | Some n \<Rightarrow>
             (case fragment c st (computeQuad_material st) of
                None \<Rightarrow> st'
              | Some frag \<Rightarrow>
                  st'\<lparr> fbos := (fbos st)(n := render_quad frag (fbos st n)) \<rparr>))"

text \<open>The callback \<^verbatim>\<open>Ocean\<close> registers with \<^verbatim>\<open>useFrame\<close>; \<open>time\<close> is the clock's elapsed time.\<close>

definition Ocean_useFrame :: "config \<Rightarrow> real \<Rightarrow> spectral_state \<Rightarrow> spectral_state" where
  "Ocean_useFrame c time st =
     (let st1 = st\<lparr> computeQuad_material := Mat_phillips \<rparr>;
          st2 = st1\<lparr> renderTarget := Some Fbo_phillips \<rparr>;
          st3 = gl_render c st2;
          st4 = st3\<lparr> renderTarget := None \<rparr>
      in if meshRef_current st4
         then st4\<lparr> oceanMaterial := (oceanMaterial st4)
                   \<lparr> ocean_uTime := time, uDisplacement := Some Fbo_phillips \<rparr> \<rparr>
         else st4)"

text \<open>The callback of a \<^verbatim>\<open>DebugView\<close> whose \<^verbatim>\<open>texture\<close> property is \<open>texture\<close>.\<close>

definition DebugView_useFrame :: "fbo_name option \<Rightarrow> spectral_state \<Rightarrow> spectral_state" where
  "DebugView_useFrame texture st =
     (if debug_meshRef_current st then st\<lparr> debugMaterial_uTexture := texture \<rparr> else st)"

section \<open>The simplified mode (\<^verbatim>\<open>src/src/Ocean.jsx\<close>)\<close>

subsection \<open>The simulation shader\<close>

definition vec3_map :: "(real \<Rightarrow> real) \<Rightarrow> vec3 \<Rightarrow> vec3" where
  "vec3_map f a = Vec3 (f (x3 a)) (f (y3 a)) (f (z3 a))"

definition vec3_zip :: "(real \<Rightarrow> real \<Rightarrow> real) \<Rightarrow> vec3 \<Rightarrow> vec3 \<Rightarrow> vec3" where
  "vec3_zip f a b = Vec3 (f (x3 a) (x3 b)) (f (y3 a) (y3 b)) (f (z3 a) (z3 b))"

definition gl_floor :: "real \<Rightarrow> real" where
  "gl_floor a = real_of_int \<lfloor>a\<rfloor>"

definition fract :: "real \<Rightarrow> real" where
  "fract a = a - gl_floor a"

definition mod289 :: "real \<Rightarrow> real" where
  "mod289 a = a - gl_floor (a * (1.0 / 289.0)) * 289.0"

definition mod289_vec2 :: "vec2 \<Rightarrow> vec2" where
  "mod289_vec2 a = Vec2 (mod289 (x2 a)) (mod289 (y2 a))"

definition mod289_vec3 :: "vec3 \<Rightarrow> vec3" where
  "mod289_vec3 a = vec3_map mod289 a"

definition permute :: "real \<Rightarrow> real" where
  "permute a = mod289 (((a * 34.0) + 1.0) * a)"

definition permute_vec2 :: "vec2 \<Rightarrow> vec2" where
  "permute_vec2 a = Vec2 (permute (x2 a)) (permute (y2 a))"

definition permute_vec3 :: "vec3 \<Rightarrow> vec3" where
  "permute_vec3 a = vec3_map permute a"

definition snoise :: "vec2 \<Rightarrow> real" where
  "snoise v =
    (let C = Vec4 0.211324865405187 0.366025403784439 (- 0.577350269189626) 0.024390243902439;
         d = dot2 v (Vec2 (y4 C) (y4 C));
         i = Vec2 (gl_floor (x2 v + d)) (gl_floor (y2 v + d));
         e = dot2 i (Vec2 (x4 C) (x4 C));
         x0 = Vec2 (x2 v - x2 i + e) (y2 v - y2 i + e);
         i1 = (if x2 x0 > y2 x0 then Vec2 1.0 0.0 else Vec2 0.0 1.0);
         x12a = Vec4 (x2 x0 + x4 C) (y2 x0 + x4 C) (x2 x0 + z4 C) (y2 x0 + z4 C);
         x12 = Vec4 (x4 x12a - x2 i1) (y4 x12a - y2 i1) (z4 x12a) (w4 x12a);
         i = mod289_vec2 i;
         q = permute_vec3 (Vec3 (y2 i + 0.0) (y2 i + y2 i1) (y2 i + 1.0));
         p = permute_vec3 (Vec3 (x3 q + x2 i + 0.0) (y3 q + x2 i + x2 i1) (z3 q + x2 i + 1.0));
         m = vec3_map (\<lambda>a. max (0.5 - a) 0.0)
               (Vec3 (dot2 x0 x0)
                     (dot2 (Vec2 (x4 x12) (y4 x12)) (Vec2 (x4 x12) (y4 x12)))
                     (dot2 (Vec2 (z4 x12) (w4 x12)) (Vec2 (z4 x12) (w4 x12))));
         m = vec3_zip (*) m m;
         m = vec3_zip (*) m m;
         x = vec3_map (\<lambda>a. 2.0 * fract (a * w4 C) - 1.0) p;
         h = vec3_map (\<lambda>a. \<bar>a\<bar> - 0.5) x;
         ox = vec3_map (\<lambda>a. gl_floor (a + 0.5)) x;
         a0 = vec3_zip (-) x ox;
         m = vec3_zip (*) m
               (vec3_map (\<lambda>a. 1.79284291400159 - 0.85373472095314 * a)
                  (vec3_zip (+) (vec3_zip (*) a0 a0) (vec3_zip (*) h h)));
         g = Vec3 (x3 a0 * x2 x0 + x3 h * y2 x0)
                  (y3 a0 * x4 x12 + y3 h * y4 x12)
                  (z3 a0 * z4 x12 + z3 h * w4 x12)
     in 130.0 * dot3 m g)"

text \<open>
  The fragment shader's \<^verbatim>\<open>main\<close>. The sampler \<^verbatim>\<open>uPrevState\<close> is declared; no
  statement reads it.
\<close>

definition sim_main :: "real \<Rightarrow> texture \<Rightarrow> vec2 \<Rightarrow> vec4 option" where
  "sim_main sim_time uPrevState_texture vUv =
    (let scale1 = Vec2 2.6 2.6;
         scale2 = Vec2 2.9 2.9;
         noise1 = snoise (Vec2 (x2 vUv * x2 scale1 + sim_time * 0.1)
                               (y2 vUv * y2 scale1 + sim_time * 0.1));
         noise2 = snoise (Vec2 (x2 vUv * x2 scale2 - sim_time * 0.15)
                               (y2 vUv * y2 scale2 - sim_time * 0.15));
         height = (noise1 + noise2) * 0.5
     in Some (Vec4 height 0.0 0.0 1.0))"

subsection \<open>The ping-pong targets and the frame callback\<close>

datatype heightmapFBO = HeightmapFBO1 | HeightmapFBO2

record simMaterial_uniforms =
  sim_uTime :: real
  uPrevState :: "heightmapFBO option"

text \<open>Of the ocean material's uniforms the callbacks write two; the colours stay as created.\<close>

record heightmap_oceanMaterial_uniforms =
  heightmap_uTime :: real
  uHeightmap :: "heightmapFBO option"

text \<open>The object in the \<^verbatim>\<open>fbos\<close> ref: its fields \<^verbatim>\<open>read\<close> and \<^verbatim>\<open>write\<close>.\<close>

record fbos_ref =
  fbo_read :: heightmapFBO
  fbo_write :: heightmapFBO

record heightmap_state =
  heightmapFBOs :: "heightmapFBO \<Rightarrow> texture"
  simMaterial :: simMaterial_uniforms
  heightmap_oceanMaterial :: heightmap_oceanMaterial_uniforms
  debugMaterial_uHeightmap :: "heightmapFBO option"
  fbos_current :: fbos_ref
  heightmap_renderTarget :: "heightmapFBO option"
  heightmap_meshRef_current :: bool
  debugRef_current :: bool

definition heightmap_Ocean_mount :: heightmap_state where
  "heightmap_Ocean_mount = \<lparr>
     heightmapFBOs = (\<lambda>n. WebGLRenderTarget 256 256),
     simMaterial = \<lparr> sim_uTime = 0, uPrevState = None \<rparr>,
     heightmap_oceanMaterial = \<lparr> heightmap_uTime = 0, uHeightmap = None \<rparr>,
     debugMaterial_uHeightmap = None,
     fbos_current = \<lparr> fbo_read = HeightmapFBO1, fbo_write = HeightmapFBO2 \<rparr>,
     heightmap_renderTarget = None,
     heightmap_meshRef_current = True,
     debugRef_current = True \<rparr>"

definition heightmap_sampler :: "heightmap_state \<Rightarrow> heightmapFBO option \<Rightarrow> texture" where
  "heightmap_sampler st v = (case v of None \<Rightarrow> emptyTexture | Some n \<Rightarrow> heightmapFBOs st n)"

text \<open>\<^verbatim>\<open>gl.render(scene, camera)\<close>: the scene holds the simulation mesh alone.\<close>

definition heightmap_gl_render :: "heightmap_state \<Rightarrow> heightmap_state" where
  "heightmap_gl_render st =
     (case heightmap_renderTarget st of
        None \<Rightarrow> st
      | Some n \<Rightarrow>
          st\<lparr> heightmapFBOs := (heightmapFBOs st)(n :=
                render_quad (sim_main (sim_uTime (simMaterial st))
                               (heightmap_sampler st (uPrevState (simMaterial st))))
                  (heightmapFBOs st n)) \<rparr>)"

definition heightmap_Ocean_useFrame :: "real \<Rightarrow> heightmap_state \<Rightarrow> heightmap_state" where
  "heightmap_Ocean_useFrame time st =
     (let st1 = st\<lparr> simMaterial := (simMaterial st)\<lparr> sim_uTime := time \<rparr> \<rparr>;
          st2 = st1\<lparr> simMaterial := (simMaterial st1)
                       \<lparr> uPrevState := Some (fbo_read (fbos_current st1)) \<rparr> \<rparr>;
          st3 = st2\<lparr> heightmap_renderTarget := Some (fbo_write (fbos_current st2)) \<rparr>;
          st4 = heightmap_gl_render st3;
          st5 = st4\<lparr> heightmap_renderTarget := None \<rparr>;
          temp = fbo_read (fbos_current st5);
          st6 = st5\<lparr> fbos_current := (fbos_current st5)\<lparr> fbo_read := fbo_write (fbos_current st5) \<rparr> \<rparr>;
          st7 = st6\<lparr> fbos_current := (fbos_current st6)\<lparr> fbo_write := temp \<rparr> \<rparr>
      in if heightmap_meshRef_current st7
         then st7\<lparr> heightmap_oceanMaterial :=
                     \<lparr> heightmap_uTime = time, uHeightmap = Some (fbo_read (fbos_current st7)) \<rparr> \<rparr>
         else st7)"

text \<open>One call of the callback per frame, with the clock's time of that frame.\<close>

fun run_frames :: "real list \<Rightarrow> heightmap_state \<Rightarrow> heightmap_state" where
  "run_frames [] st = st"
| "run_frames (time # ts) st = run_frames ts (heightmap_Ocean_useFrame time st)"

text \<open>The callback of the \<^verbatim>\<open>DebugPlane\<close> whose \<^verbatim>\<open>heightmapTexture\<close> property is \<open>heightmapTexture\<close>.\<close>

definition DebugPlane_useFrame :: "heightmapFBO option \<Rightarrow> heightmap_state \<Rightarrow> heightmap_state" where
  "DebugPlane_useFrame heightmapTexture st =
     (if debugRef_current st then st\<lparr> debugMaterial_uHeightmap := heightmapTexture \<rparr> else st)"

section \<open>Properties\<close>

subsection \<open>Built-ins, sampling and passes\<close>


lemma gl_sqrt_nonneg: "0 \<le> a \<Longrightarrow> gl_sqrt a = Some (sqrt a)"
  by (simp add: gl_sqrt_def)

lemma texel_index_centre: "i < n \<Longrightarrow> texel_index n ((real i + 1 / 2) / real n) = i"
  by (simp add: texel_index_def)

text \<open>Sampling at the centre of a texel returns that texel.\<close>

lemma texture2D_centre:
  "i < width t \<Longrightarrow> j < height t \<Longrightarrow>
   texture2D t (texel_uv (width t) (height t) i j) = texels t i j"
  by (simp add: texture2D_def texel_uv_def texel_index_centre)

lemma texture2D_render_quad:
  "i < width t \<Longrightarrow> j < height t \<Longrightarrow>
   texture2D (render_quad frag t) (texel_uv (width t) (height t) i j) =
   frag (texel_uv (width t) (height t) i j)"
  using texture2D_centre [of i "render_quad frag t" j] by (simp add: render_quad_def)

subsection \<open>The Phillips spectrum\<close>

lemma phillips_below_epsilon: "length2 k < 0.0001 \<Longrightarrow> phillips u k = Some 0"
  by (simp add: phillips_def)

lemma phillips_defined_nonneg:
  assumes a: "0 \<le> uAlpha u" and w: "0 < uWindSpeed u" and g: "0 < uGravity u"
  shows "\<exists>P. phillips u k = Some P \<and> 0 \<le> P"
proof (cases "length2 k < 0.0001")
  case True
  then show ?thesis by (simp add: phillips_below_epsilon)
next
  case False
  then have kpos: "0 < length2 k" by simp
  define L where "L = uWindSpeed u * uWindSpeed u / uGravity u"
  have Lpos: "0 < L" using w g by (simp add: L_def)
  obtain nk where nk: "normalize2 k = Some nk"
    using kpos by (simp add: normalize2_def gl_div_def)
  define kDotW where "kDotW = dot2 nk (uWindDirection u)"
  have sq: "0 \<le> kDotW * kDotW" by simp
  have den: "length2 k * length2 k * L * L \<noteq> 0" using kpos Lpos by simp
  have den4: "0 < length2 k * length2 k * length2 k * length2 k" using kpos by simp
  have val: "phillips u k =
      Some (uAlpha u * exp (- 1 / (length2 k * length2 k * L * L))
            * ((kDotW * kDotW) powr 1)
            * exp (- length2 k * length2 k * ((L / 1000) powr 2))
            / (length2 k * length2 k * length2 k * length2 k))"
    using False nk g Lpos sq den den4
    by (simp add: phillips_def gl_div_def gl_pow_def Let_def L_def [symmetric]
        kDotW_def [symmetric] not_less)
  have "0 \<le> uAlpha u * exp (- 1 / (length2 k * length2 k * L * L))
            * ((kDotW * kDotW) powr 1)
            * exp (- length2 k * length2 k * ((L / 1000) powr 2))
            / (length2 k * length2 k * length2 k * length2 k)"
    using a den4 by (intro divide_nonneg_pos mult_nonneg_nonneg) simp_all
  with val show ?thesis by simp
qed

text \<open>
  C3: for every wave vector whose length is below 0.0001 the function \<^verbatim>\<open>phillips\<close>
  returns exactly 0, whatever the uniforms are: the return comes before every division,
  so the result is a defined number, also where a division by the length or by the
  gravity would not be. The fragment of such a wave vector writes \<open>(0, 0, 0, 1)\<close>.
\<close>

theorem phillips_zero_below_epsilon:
  assumes "length2 k < 0.0001"
  shows "phillips u k = Some 0
    \<and> (wave_vector c vUv = k \<longrightarrow> phillips_main c u vUv = Some (Vec4 0 0 0 1))"
  using assms by (simp add: phillips_below_epsilon phillips_main_def)

theorem phillips_zero_below_epsilon_witness:
  "length2 (Vec2 0 0) < 0.0001
   \<and> wave_vector source_config (Vec2 0.5 0.5) = Vec2 0 0
   \<and> phillips \<lparr> uWindSpeed = 10, uWindDirection = Vec2 1 0, uGravity = 0, uAlpha = 0.0081 \<rparr>
        (Vec2 0 0) = Some 0
   \<and> phillips_main source_config
        \<lparr> uWindSpeed = 10, uWindDirection = Vec2 1 0, uGravity = 0, uAlpha = 0.0081 \<rparr>
        (Vec2 0.5 0.5) = Some (Vec4 0 0 0 1)"
proof -
  have h: "length2 (Vec2 0 0) < 0.0001" by (simp add: length2_def)
  have k: "wave_vector source_config (Vec2 0.5 0.5) = Vec2 0 0"
    by (simp add: wave_vector_def)
  show ?thesis
    using h k phillips_zero_below_epsilon [OF h,
        of "\<lparr> uWindSpeed = 10, uWindDirection = Vec2 1 0, uGravity = 0, uAlpha = 0.0081 \<rparr>"
           source_config "Vec2 0.5 0.5"]
    by simp
qed

text \<open>
  C4: for every wave vector, a non-negative \<^verbatim>\<open>uAlpha\<close>, a positive wind speed, a unit
  wind direction and a positive gravity, the value of \<^verbatim>\<open>phillips\<close> is defined and
  greater than or equal to 0.
\<close>

theorem phillips_nonneg:
  assumes "0 \<le> uAlpha u" and "0 < uWindSpeed u"
    and "length2 (uWindDirection u) = 1" and "0 < uGravity u"
  shows "\<exists>P. phillips u k = Some P \<and> 0 \<le> P"
  using assms by (intro phillips_defined_nonneg)

theorem phillips_nonneg_witness:
  "0 \<le> uAlpha (phillipsSpectrumShader_uniforms source_config)
   \<and> 0 < uWindSpeed (phillipsSpectrumShader_uniforms source_config)
   \<and> length2 (uWindDirection (phillipsSpectrumShader_uniforms source_config)) = 1
   \<and> 0 < uGravity (phillipsSpectrumShader_uniforms source_config)
   \<and> (\<exists>P. phillips (phillipsSpectrumShader_uniforms source_config) (Vec2 3 4) = Some P \<and> 0 \<le> P)"
  using phillips_nonneg [of "phillipsSpectrumShader_uniforms source_config" "Vec2 3 4"]
  by (simp add: phillipsSpectrumShader_uniforms_def source_config_def length2_def)

subsection \<open>The initial spectrum\<close>

text \<open>
  C5: at every texture coordinate where the spectrum texture holds a value \<open>P \<ge> 0\<close> in
  its first channel and the noise texture holds \<open>(n_x, n_y, _, _)\<close>, the fragment of the
  initial spectrum writes \<open>(sqrt (P / 2) * n_x, sqrt (P / 2) * n_y, 0, 1)\<close>. The result is
  a function of the two sampled texels alone: any two textures that agree with these at
  the coordinate give the same fragment; neither time nor a random source is an input.
\<close>

theorem initialSpectrum_value:
  assumes "texture2D uPhillips_texture vUv = Some ph" and "0 \<le> x4 ph"
    and "texture2D uNoise_texture vUv = Some n"
  shows "initialSpectrum_main uPhillips_texture uNoise_texture vUv =
           Some (Vec4 (sqrt (x4 ph / 2) * x4 n) (sqrt (x4 ph / 2) * y4 n) 0 1)
    \<and> (\<forall>p' n'. texture2D p' vUv = texture2D uPhillips_texture vUv
              \<and> texture2D n' vUv = texture2D uNoise_texture vUv
          \<longrightarrow> initialSpectrum_main p' n' vUv =
              initialSpectrum_main uPhillips_texture uNoise_texture vUv)"
  using assms by (simp add: initialSpectrum_main_def gl_sqrt_nonneg Let_def)

theorem initialSpectrum_value_witness:
  "texture2D (WebGLRenderTarget 4 4\<lparr> texels := \<lambda>i j. Some (Vec4 8 0 0 1) \<rparr>) (Vec2 0.5 0.5)
     = Some (Vec4 8 0 0 1)
   \<and> 0 \<le> x4 (Vec4 8 0 0 1)
   \<and> texture2D (WebGLRenderTarget 4 4\<lparr> texels := \<lambda>i j. Some (Vec4 3 5 0 1) \<rparr>) (Vec2 0.5 0.5)
     = Some (Vec4 3 5 0 1)
   \<and> initialSpectrum_main (WebGLRenderTarget 4 4\<lparr> texels := \<lambda>i j. Some (Vec4 8 0 0 1) \<rparr>)
        (WebGLRenderTarget 4 4\<lparr> texels := \<lambda>i j. Some (Vec4 3 5 0 1) \<rparr>) (Vec2 0.5 0.5)
     = Some (Vec4 6 10 0 1)"
proof -
  have p: "texture2D (WebGLRenderTarget 4 4\<lparr> texels := \<lambda>i j. Some (Vec4 8 0 0 1) \<rparr>)
      (Vec2 0.5 0.5) = Some (Vec4 8 0 0 1)"
    by (simp add: texture2D_def)
  have n: "texture2D (WebGLRenderTarget 4 4\<lparr> texels := \<lambda>i j. Some (Vec4 3 5 0 1) \<rparr>)
      (Vec2 0.5 0.5) = Some (Vec4 3 5 0 1)"
    by (simp add: texture2D_def)
  have q: "0 \<le> x4 (Vec4 8 0 0 1)" by simp
  have s: "sqrt 4 = 2" using real_sqrt_abs [of 2] by simp
  show ?thesis
    using p n s initialSpectrum_value [OF p q n] by simp
qed

text \<open>
  The hypothesis on the spectrum holds behind the Phillips fragment: sampled at the centre
  of a texel, a target drawn with \<^verbatim>\<open>main\<close> of the Phillips shader, for whatever value
  of \<^verbatim>\<open>PI\<close>, holds the value of \<^verbatim>\<open>phillips\<close> at the texel's wave vector, which is
  defined and not negative.
\<close>

lemma initialSpectrum_after_phillips_pass:
  assumes "0 \<le> uAlpha u" and "0 < uWindSpeed u" and "0 < uGravity u"
    and i: "i < width t" and j: "j < height t"
    and n: "texture2D uNoise_texture (texel_uv (width t) (height t) i j) = Some n"
  shows "\<exists>P. phillips u (wave_vector c (texel_uv (width t) (height t) i j)) = Some P \<and> 0 \<le> P
    \<and> initialSpectrum_main (render_quad (phillips_main c u) t) uNoise_texture
         (texel_uv (width t) (height t) i j)
       = Some (Vec4 (sqrt (P / 2) * x4 n) (sqrt (P / 2) * y4 n) 0 1)"
proof -
  obtain P where P: "phillips u (wave_vector c (texel_uv (width t) (height t) i j)) = Some P"
    and P0: "0 \<le> P"
    using phillips_defined_nonneg [OF assms(1-3)] by blast
  have "texture2D (render_quad (phillips_main c u) t) (texel_uv (width t) (height t) i j)
      = Some (Vec4 P 0 0 1)"
    using i j P by (simp add: texture2D_render_quad phillips_main_def)
  then show ?thesis
    using P P0 n by (simp add: initialSpectrum_main_def gl_sqrt_nonneg Let_def)
qed

subsection \<open>Time evolution\<close>



text \<open>
  C10: for every texture coordinate and every time, each of the two channels the
  time-evolution fragment writes is, in absolute value, at most the same channel of the
  initial spectrum's texel there.
\<close>

theorem timeEvolution_amplitude_bound:
  assumes "texture2D initialSpectrum_texture vUv = Some h0"
    and "timeEvolution_main c initialSpectrum_texture t vUv = Some ht"
  shows "\<bar>x4 ht\<bar> \<le> \<bar>x4 h0\<bar> \<and> \<bar>y4 ht\<bar> \<le> \<bar>y4 h0\<bar>"
proof -
  obtain w where "ht = Vec4 (x4 h0 * cos (w * t)) (y4 h0 * cos (w * t)) 0 1"
    using assms by (auto simp: timeEvolution_main_def Let_def gl_sqrt_def split: if_splits)
  then show ?thesis by (simp add: abs_mult mult_left_le)
qed

theorem timeEvolution_amplitude_bound_witness:
  "texture2D (WebGLRenderTarget 256 256\<lparr> texels := \<lambda>i j. Some (Vec4 3 (- 4) 0 1) \<rparr>)
      (Vec2 0.5 0.5) = Some (Vec4 3 (- 4) 0 1)
   \<and> timeEvolution_main source_config
        (WebGLRenderTarget 256 256\<lparr> texels := \<lambda>i j. Some (Vec4 3 (- 4) 0 1) \<rparr>) 7 (Vec2 0.5 0.5)
      = Some (Vec4 3 (- 4) 0 1)
   \<and> \<bar>x4 (Vec4 3 (- 4) 0 1)\<bar> \<le> \<bar>x4 (Vec4 3 (- 4) 0 1)\<bar>
   \<and> \<bar>y4 (Vec4 3 (- 4) 0 1)\<bar> \<le> \<bar>y4 (Vec4 3 (- 4) 0 1)\<bar>"
proof -
  have h: "texture2D (WebGLRenderTarget 256 256\<lparr> texels := \<lambda>i j. Some (Vec4 3 (- 4) 0 1) \<rparr>)
      (Vec2 0.5 0.5) = Some (Vec4 3 (- 4) 0 1)"
    by (simp add: texture2D_def)
  have e: "timeEvolution_main source_config
      (WebGLRenderTarget 256 256\<lparr> texels := \<lambda>i j. Some (Vec4 3 (- 4) 0 1) \<rparr>) 7 (Vec2 0.5 0.5)
      = Some (Vec4 3 (- 4) 0 1)"
    by (simp add: timeEvolution_main_def texture2D_def wave_vector_def length2_def gl_sqrt_def)
  show ?thesis
    using h e timeEvolution_amplitude_bound [OF h e] by simp
qed

subsection \<open>The frame of the spectral pipeline\<close>

lemma Ocean_useFrame_calls:
  "gl_render_calls (Ocean_useFrame c time st) =
   gl_render_calls st @ [(Mat_phillips, Some Fbo_phillips)]"
  by (simp add: Ocean_useFrame_def gl_render_def fragment_def Let_def)

lemma Ocean_useFrame_fbos_other:
  "n \<noteq> Fbo_phillips \<Longrightarrow> fbos (Ocean_useFrame c time st) n = fbos st n"
  by (simp add: Ocean_useFrame_def gl_render_def fragment_def Let_def)

lemma Ocean_useFrame_uDisplacement:
  "meshRef_current st \<Longrightarrow>
   uDisplacement (oceanMaterial (Ocean_useFrame c time st)) = Some Fbo_phillips"
  by (simp add: Ocean_useFrame_def gl_render_def fragment_def Let_def)

lemma Ocean_useFrame_renderTarget: "renderTarget (Ocean_useFrame c time st) = None"
  by (simp add: Ocean_useFrame_def gl_render_def fragment_def Let_def)

text \<open>
  C1, as the claim states it, fails on the code. The first frame after mounting makes one
  render call, with the Phillips material on the compute quad and the Phillips target
  bound; the three FFT shader objects have empty sources; the displacement target is as
  it was created, and the texture handed to the ocean material as displacement is the
  Phillips target. No horizontal or vertical butterfly stage is executed, where the claim
  has eight of each for the resolution 256.
\<close>

theorem no_fft_stage_in_first_frame:
  "gl_render_calls (Ocean_useFrame source_config 0 (Ocean_mount source_config))
     = [(Mat_phillips, Some Fbo_phillips)]
   \<and> fragmentShader butterflyTextureShader = ''''
   \<and> fragmentShader horizontalFFTShader = ''''
   \<and> fragmentShader verticalFFTShader = ''''
   \<and> fbos (Ocean_useFrame source_config 0 (Ocean_mount source_config)) Fbo_displacement
     = WebGLRenderTarget 256 256
   \<and> uDisplacement (oceanMaterial (Ocean_useFrame source_config 0 (Ocean_mount source_config)))
     = Some Fbo_phillips"
  by (simp add: Ocean_useFrame_calls Ocean_useFrame_fbos_other Ocean_useFrame_uDisplacement
      butterflyTextureShader_def horizontalFFTShader_def verticalFFTShader_def
      Ocean_mount_def source_config_def)

text \<open>
  C1, amended: the FFT engine is a set of three shader objects with empty sources. Every
  frame, from every state, makes exactly one render call, with the Phillips material on
  the compute quad and the target \<^verbatim>\<open>fbos.phillips\<close> bound; every other render target
  (initial spectrum, spectrum, displacement, normals, the ping-pong pair) keeps its
  contents; and when the ocean mesh is mounted its displacement uniform is bound to the
  Phillips target.
\<close>

theorem frame_makes_phillips_call_only:
  "gl_render_calls (Ocean_useFrame c time st)
     = gl_render_calls st @ [(Mat_phillips, Some Fbo_phillips)]
   \<and> (\<forall>n. n \<noteq> Fbo_phillips \<longrightarrow> fbos (Ocean_useFrame c time st) n = fbos st n)
   \<and> (meshRef_current st \<longrightarrow>
         uDisplacement (oceanMaterial (Ocean_useFrame c time st)) = Some Fbo_phillips)
   \<and> fragmentShader butterflyTextureShader = ''''
   \<and> fragmentShader horizontalFFTShader = ''''
   \<and> fragmentShader verticalFFTShader = ''''"
  by (simp add: Ocean_useFrame_calls Ocean_useFrame_fbos_other Ocean_useFrame_uDisplacement
      butterflyTextureShader_def horizontalFFTShader_def verticalFFTShader_def)

theorem frame_makes_phillips_call_only_witness:
  "Fbo_spectrum \<noteq> Fbo_phillips
   \<and> fbos (Ocean_useFrame source_config 1 (Ocean_mount source_config)) Fbo_spectrum
     = fbos (Ocean_mount source_config) Fbo_spectrum
   \<and> meshRef_current (Ocean_mount source_config)
   \<and> uDisplacement (oceanMaterial (Ocean_useFrame source_config 1 (Ocean_mount source_config)))
     = Some Fbo_phillips"
  using frame_makes_phillips_call_only [of source_config 1 "Ocean_mount source_config"]
  by (simp add: Ocean_mount_def)

subsection \<open>The frame of the simplified mode\<close>

lemma sim_main_ignores_uPrevState: "sim_main t p = sim_main t p'"
  by (rule ext) (simp add: sim_main_def)

lemma useFrame_fbos_current:
  "fbos_current (heightmap_Ocean_useFrame t st) =
   \<lparr> fbo_read = fbo_write (fbos_current st), fbo_write = fbo_read (fbos_current st) \<rparr>"
  by (simp add: heightmap_Ocean_useFrame_def heightmap_gl_render_def Let_def)

lemma useFrame_uPrevState:
  "uPrevState (simMaterial (heightmap_Ocean_useFrame t st)) = Some (fbo_read (fbos_current st))"
  by (simp add: heightmap_Ocean_useFrame_def heightmap_gl_render_def Let_def)

lemma useFrame_written:
  "heightmapFBOs (heightmap_Ocean_useFrame t st) =
   (heightmapFBOs st)(fbo_write (fbos_current st) :=
      render_quad (sim_main t p) (heightmapFBOs st (fbo_write (fbos_current st))))"
proof -
  have "\<exists>q. heightmapFBOs (heightmap_Ocean_useFrame t st) =
      (heightmapFBOs st)(fbo_write (fbos_current st) :=
        render_quad (sim_main t q) (heightmapFBOs st (fbo_write (fbos_current st))))"
    by (simp add: heightmap_Ocean_useFrame_def heightmap_gl_render_def Let_def) blast
  then obtain q where q: "heightmapFBOs (heightmap_Ocean_useFrame t st) =
      (heightmapFBOs st)(fbo_write (fbos_current st) :=
        render_quad (sim_main t q) (heightmapFBOs st (fbo_write (fbos_current st))))" ..
  have "sim_main t q = sim_main t p" by (rule sim_main_ignores_uPrevState)
  with q show ?thesis by simp
qed

lemma run_frames_fbos_current:
  "fbos_current (run_frames ts st) =
     (if even (length ts) then fbos_current st
      else \<lparr> fbo_read = fbo_write (fbos_current st), fbo_write = fbo_read (fbos_current st) \<rparr>)"
proof (induction ts arbitrary: st)
  case Nil
  then show ?case by simp
next
  case (Cons t ts)
  then show ?case by (simp add: useFrame_fbos_current)
qed

text \<open>
  C6, as the claim states it, fails on the code. Take the state after mounting and the
  same state with other texels in the read buffer: the frame at time 1 reads from the
  first target in both, and writes the same heightmap into the second target in both.
  The heightmap written is not computed from the read buffer.
\<close>

theorem heightmap_written_without_read_buffer:
  "fbo_read (fbos_current heightmap_Ocean_mount) = HeightmapFBO1
   \<and> fbo_write (fbos_current heightmap_Ocean_mount) = HeightmapFBO2
   \<and> texels (heightmapFBOs heightmap_Ocean_mount HeightmapFBO1) 0 0
       \<noteq> texels ((WebGLRenderTarget 256 256)\<lparr> texels := \<lambda>i j. Some (Vec4 1 0 0 1) \<rparr>) 0 0
   \<and> heightmapFBOs (heightmap_Ocean_useFrame 1 heightmap_Ocean_mount) HeightmapFBO2
     = heightmapFBOs (heightmap_Ocean_useFrame 1
         (heightmap_Ocean_mount\<lparr> heightmapFBOs := (heightmapFBOs heightmap_Ocean_mount)
            (HeightmapFBO1 :=
               (WebGLRenderTarget 256 256)\<lparr> texels := \<lambda>i j. Some (Vec4 1 0 0 1) \<rparr>) \<rparr>))
         HeightmapFBO2"
  by (simp add: useFrame_written [of _ _ emptyTexture] heightmap_Ocean_mount_def
      WebGLRenderTarget_def)

text \<open>
  C6, amended: in every frame the sampler \<^verbatim>\<open>uPrevState\<close> of the simulation pass is bound
  to the read buffer, which in the frame after a frame is the target that frame has drawn
  into, and the pass draws into the other target. The fragment shader does not sample
  \<^verbatim>\<open>uPrevState\<close>: the texels a frame writes are the values of \<^verbatim>\<open>main\<close> at the frame's
  time and the texel centres, the same for every texture \<open>p\<close> in the place of the read
  buffer.
\<close>

theorem previous_target_bound_not_sampled:
  "uPrevState (simMaterial (heightmap_Ocean_useFrame t st)) = Some (fbo_read (fbos_current st))
   \<and> uPrevState (simMaterial (heightmap_Ocean_useFrame t' (heightmap_Ocean_useFrame t st)))
     = Some (fbo_write (fbos_current st))
   \<and> fbo_write (fbos_current (heightmap_Ocean_useFrame t st)) = fbo_read (fbos_current st)
   \<and> heightmapFBOs (heightmap_Ocean_useFrame t st) (fbo_write (fbos_current st))
     = render_quad (sim_main t p) (heightmapFBOs st (fbo_write (fbos_current st)))
   \<and> sim_main t p vUv = sim_main t p' vUv"
  using sim_main_ignores_uPrevState [of t p p']
  by (simp add: useFrame_uPrevState useFrame_fbos_current useFrame_written [of _ _ p])

text \<open>
  C7: the frame callback exchanges the \<^verbatim>\<open>read\<close> and \<^verbatim>\<open>write\<close> references in every
  frame, under no condition. After an even number of frames \<^verbatim>\<open>read\<close> is the target it
  was before the first of them, after an odd number it is the target that was
  \<^verbatim>\<open>write\<close>; after mounting these are the two different targets.
\<close>

theorem read_role_by_parity:
  "fbos_current (heightmap_Ocean_useFrame t st)
     = \<lparr> fbo_read = fbo_write (fbos_current st), fbo_write = fbo_read (fbos_current st) \<rparr>
   \<and> (even (length ts) \<longrightarrow>
        fbo_read (fbos_current (run_frames ts st)) = fbo_read (fbos_current st))
   \<and> (odd (length ts) \<longrightarrow>
        fbo_read (fbos_current (run_frames ts st)) = fbo_write (fbos_current st))
   \<and> fbo_read (fbos_current heightmap_Ocean_mount) \<noteq> fbo_write (fbos_current heightmap_Ocean_mount)"
  by (simp add: useFrame_fbos_current run_frames_fbos_current heightmap_Ocean_mount_def)

theorem read_role_by_parity_witness:
  "even (length [0.1, 0.2 :: real])
   \<and> fbo_read (fbos_current (run_frames [0.1, 0.2] heightmap_Ocean_mount)) = HeightmapFBO1
   \<and> odd (length [0.1, 0.2, 0.3 :: real])
   \<and> fbo_read (fbos_current (run_frames [0.1, 0.2, 0.3] heightmap_Ocean_mount)) = HeightmapFBO2"
  using read_role_by_parity [of 0 heightmap_Ocean_mount "[0.1, 0.2]"]
    read_role_by_parity [of 0 heightmap_Ocean_mount "[0.1, 0.2, 0.3]"]
  by (simp add: heightmap_Ocean_mount_def)

subsection \<open>Debug views\<close>

text \<open>
  C9: the frame callback of a debug view writes one thing, the texture uniform of the debug
  material. In the spectral pipeline the contents of every render target, the uniforms of
  the three simulation materials and of the ocean material, the material on the compute
  quad and the bound render target are the same after it as before; in the simplified
  mode so are the contents of both heightmap targets, the uniforms of the simulation and
  ocean materials and the \<^verbatim>\<open>read\<close> and \<^verbatim>\<open>write\<close> roles. The quad itself is drawn
  with the scene, after the callbacks, which leave no render target bound.
\<close>

theorem debug_view_leaves_pipeline_state:
  "fbos (DebugView_useFrame texture st) = fbos st
   \<and> materials_phillips (DebugView_useFrame texture st) = materials_phillips st
   \<and> materials_initialSpectrum (DebugView_useFrame texture st) = materials_initialSpectrum st
   \<and> materials_timeEvolution (DebugView_useFrame texture st) = materials_timeEvolution st
   \<and> oceanMaterial (DebugView_useFrame texture st) = oceanMaterial st
   \<and> computeQuad_material (DebugView_useFrame texture st) = computeQuad_material st
   \<and> renderTarget (DebugView_useFrame texture st) = renderTarget st
   \<and> gl_render_calls (DebugView_useFrame texture st) = gl_render_calls st
   \<and> renderTarget (Ocean_useFrame c time st) = None
   \<and> heightmapFBOs (DebugPlane_useFrame heightmapTexture hst) = heightmapFBOs hst
   \<and> simMaterial (DebugPlane_useFrame heightmapTexture hst) = simMaterial hst
   \<and> heightmap_oceanMaterial (DebugPlane_useFrame heightmapTexture hst)
     = heightmap_oceanMaterial hst
   \<and> fbos_current (DebugPlane_useFrame heightmapTexture hst) = fbos_current hst
   \<and> heightmap_renderTarget (DebugPlane_useFrame heightmapTexture hst)
     = heightmap_renderTarget hst
   \<and> heightmap_renderTarget (heightmap_Ocean_useFrame time hst) = None"
  by (simp add: DebugView_useFrame_def DebugPlane_useFrame_def Ocean_useFrame_renderTarget
      heightmap_Ocean_useFrame_def heightmap_gl_render_def Let_def)

end
